theory Spec2Isabelle
  imports Complex_Main "HOL-Library.Word"
begin

unbundle bit_operations_syntax

section \<open>The C types of main.c\<close>

subsection \<open>double\<close>

text \<open>
  A C \<open>double\<close> is a finite value, a negative zero, an infinity or a NaN.
  \<open>Finite r\<close> stands for the finite double whose value is the real number \<open>r\<close>;
  \<open>Finite 0\<close> is the positive zero. Every finite binary64 value is a real number, so a
  statement about all \<open>Finite r\<close> covers every finite double (and more).
\<close>

datatype double = Finite real | NegZero | PosInf | NegInf | NaN

definition DBL_MAX :: real where
  "DBL_MAX = (2 ^ 53 - 1) * 2 ^ 971"

text \<open>The zero and the infinity of a given sign (\<open>True\<close> is the minus sign).\<close>

definition d_zero :: "bool \<Rightarrow> double" where
  "d_zero neg = (if neg then NegZero else Finite 0)"

definition d_inf :: "bool \<Rightarrow> double" where
  "d_inf neg = (if neg then NegInf else PosInf)"

text \<open>The comparison \<open>c < 0\<close>: false for both zeros and for NaN.\<close>

fun d_lt_zero :: "double \<Rightarrow> bool" where
  "d_lt_zero (Finite r) = (r < 0)"
| "d_lt_zero NegZero = False"
| "d_lt_zero PosInf = False"
| "d_lt_zero NegInf = True"
| "d_lt_zero NaN = False"

text \<open>The test \<open>!value\<close>: true for both zeros only.\<close>

fun d_not :: "double \<Rightarrow> bool" where
  "d_not (Finite r) = (r = 0)"
| "d_not NegZero = True"
| "d_not PosInf = False"
| "d_not NegInf = False"
| "d_not NaN = False"

text \<open>Unary minus flips the sign, also of a zero.\<close>

fun d_neg :: "double \<Rightarrow> double" where
  "d_neg (Finite r) = (if r = 0 then NegZero else Finite (- r))"
| "d_neg NegZero = Finite 0"
| "d_neg PosInf = NegInf"
| "d_neg NegInf = PosInf"
| "d_neg NaN = NaN"

text \<open>
  The product \<open>x * ((int64_t) 1L << 32)\<close>. The right operand is the constant
  \<open>2 ^ 32\<close>; in binary floating point the product with a power of two is exact (only
  the exponent changes) unless it overflows to an infinity.
\<close>

fun d_mul_pow2 :: "double \<Rightarrow> nat \<Rightarrow> double" where
  "d_mul_pow2 (Finite r) k =
     (if DBL_MAX < \<bar>r * 2 ^ k\<bar> then d_inf (r < 0) else Finite (r * 2 ^ k))"
| "d_mul_pow2 NegZero k = NegZero"
| "d_mul_pow2 PosInf k = PosInf"
| "d_mul_pow2 NegInf k = NegInf"
| "d_mul_pow2 NaN k = NaN"

text \<open>
  The cast \<open>(int64_t) x\<close>: the fractional part is discarded (truncation towards zero).
  When the integral part does not fit \<open>int64_t\<close>, and for an infinity or a NaN, the
  behaviour is undefined in C: the result is \<open>None\<close>.
\<close>

definition trunc :: "real \<Rightarrow> int" where
  "trunc r = (if 0 \<le> r then \<lfloor>r\<rfloor> else \<lceil>r\<rceil>)"

fun d_to_int64 :: "double \<Rightarrow> 64 word option" where
  "d_to_int64 (Finite r) =
     (if - (2 ^ 63) \<le> trunc r \<and> trunc r < 2 ^ 63 then Some (word_of_int (trunc r)) else None)"
| "d_to_int64 NegZero = Some 0"
| "d_to_int64 PosInf = None"
| "d_to_int64 NegInf = None"
| "d_to_int64 NaN = None"

text \<open>
  The arithmetic of \<open>parse_user_ctm\<close>. A sum, difference or quotient of finite doubles
  is the exact real result rounded to a double. The rounding \<open>rnd\<close> (of the platform's
  rounding mode, to 53 significant bits) is a parameter; the exact arithmetic of the real
  numbers is the instance \<open>rnd = id\<close>. A rounded result beyond \<open>DBL_MAX\<close> is an
  infinity, and one that underflows to zero keeps the sign of the exact result.
\<close>

fun d_is_inf :: "double \<Rightarrow> bool" where
  "d_is_inf PosInf = True"
| "d_is_inf NegInf = True"
| "d_is_inf _ = False"

text \<open>The sign bit.\<close>

fun d_sign :: "double \<Rightarrow> bool" where
  "d_sign (Finite r) = (r < 0)"
| "d_sign NegZero = True"
| "d_sign PosInf = False"
| "d_sign NegInf = True"
| "d_sign NaN = False"

fun d_val :: "double \<Rightarrow> real" where
  "d_val (Finite r) = r"
| "d_val _ = 0"

definition d_round :: "(real \<Rightarrow> real) \<Rightarrow> real \<Rightarrow> double" where
  "d_round rnd r =
     (if DBL_MAX < \<bar>rnd r\<bar> then d_inf (r < 0)
      else if rnd r = 0 then d_zero (r < 0)
      else Finite (rnd r))"

fun d_add :: "(real \<Rightarrow> real) \<Rightarrow> double \<Rightarrow> double \<Rightarrow> double" where
  "d_add rnd NaN y = NaN"
| "d_add rnd x NaN = NaN"
| "d_add rnd PosInf NegInf = NaN"
| "d_add rnd NegInf PosInf = NaN"
| "d_add rnd PosInf y = PosInf"
| "d_add rnd NegInf y = NegInf"
| "d_add rnd x PosInf = PosInf"
| "d_add rnd x NegInf = NegInf"
| "d_add rnd NegZero NegZero = NegZero"
| "d_add rnd NegZero (Finite b) = Finite b"
| "d_add rnd (Finite a) NegZero = Finite a"
| "d_add rnd (Finite a) (Finite b) = (if a + b = 0 then Finite 0 else d_round rnd (a + b))"

definition d_sub :: "(real \<Rightarrow> real) \<Rightarrow> double \<Rightarrow> double \<Rightarrow> double" where
  "d_sub rnd x y = d_add rnd x (d_neg y)"

definition d_div :: "(real \<Rightarrow> real) \<Rightarrow> double \<Rightarrow> double \<Rightarrow> double" where
  "d_div rnd x y =
     (if x = NaN \<or> y = NaN then NaN
      else if d_is_inf x then (if d_is_inf y then NaN else d_inf (d_sign x \<noteq> d_sign y))
      else if d_is_inf y then d_zero (d_sign x \<noteq> d_sign y)
      else if d_not y then (if d_not x then NaN else d_inf (d_sign x \<noteq> d_sign y))
      else if d_not x then d_zero (d_sign x \<noteq> d_sign y)
      else d_round rnd (d_val x / d_val y))"

section \<open>coeffs_to_ctm\<close>

text \<open>
  The body of the loop of \<open>coeffs_to_ctm\<close>, for one coefficient: the magnitude scaled
  by \<open>2 ^ 32\<close> and cast to \<open>int64_t\<close>, with bit 63 set by \<open>|= 1ULL << 63\<close> when the
  coefficient compares less than zero.
\<close>

definition coeff_to_ctm :: "double \<Rightarrow> 64 word option" where
  "coeff_to_ctm c =
     (if d_lt_zero c
      then map_option (\<lambda>m. m OR push_bit 63 1) (d_to_int64 (d_mul_pow2 (d_neg c) 32))
      else d_to_int64 (d_mul_pow2 c 32))"

text \<open>
  The loop runs over the indices 0 to 8 of \<open>coeffs\<close>. An array with fewer than nine
  entries is read out of bounds, and an undefined cast leaves the whole result undefined.
\<close>

definition coeffs_to_ctm :: "double list \<Rightarrow> 64 word list option" where
  "coeffs_to_ctm coeffs =
     (if length coeffs < 9 then None else those (map coeff_to_ctm (take 9 coeffs)))"

text \<open>
  The coefficients whose scaled magnitude fits the 63 bits of the format: the finite
  doubles \<open>c\<close> with \<open>\<bar>c\<bar> * 2 ^ 32 < 2 ^ 63\<close>, the negative zero among them.
\<close>

definition fits_q31_32 :: "double \<Rightarrow> bool" where
  "fits_q31_32 d =
     (case d of Finite c \<Rightarrow> \<bar>c\<bar> * 2 ^ 32 < 2 ^ 63 | NegZero \<Rightarrow> True | _ \<Rightarrow> False)"

section \<open>The padded copy of set_ctm\<close>

text \<open>
  \<open>set_ctm\<close> reads the nine \<open>int64_t\<close> entries of \<open>ctm.matrix\<close> through a
  \<open>uint32_t\<close> pointer. C does not define an access to an \<open>int64_t\<close> object through
  an lvalue of the type \<open>uint32_t\<close> (the aliasing rule): the behaviour is undefined, and
  a compiler that relies on the rule need not read what \<open>coeffs_to_ctm\<close> has stored.
  Some implementations define the access (gcc does with \<open>-fno-strict-aliasing\<close>). There
  the read goes to the bytes of the object, and what it gives depends on the byte order,
  so the object representation is written out: an integer of \<open>n\<close> bytes lies in memory
  with its least significant byte first (little endian) or last (big endian).
\<close>

datatype byte_order = LittleEndian | BigEndian

fun le_bytes :: "nat \<Rightarrow> 'a::len word \<Rightarrow> 8 word list" where
  "le_bytes 0 w = []"
| "le_bytes (Suc n) w = ucast w # le_bytes n (drop_bit 8 w)"

fun of_le_bytes :: "8 word list \<Rightarrow> 'a::len word" where
  "of_le_bytes [] = 0"
| "of_le_bytes (b # bs) = ucast b OR push_bit 8 (of_le_bytes bs)"

definition object_bytes :: "byte_order \<Rightarrow> nat \<Rightarrow> 'a::len word \<Rightarrow> 8 word list" where
  "object_bytes bo n w =
     (case bo of LittleEndian \<Rightarrow> le_bytes n w | BigEndian \<Rightarrow> rev (le_bytes n w))"

definition object_value :: "byte_order \<Rightarrow> 8 word list \<Rightarrow> 'a::len word" where
  "object_value bo bs =
     (case bo of LittleEndian \<Rightarrow> of_le_bytes bs | BigEndian \<Rightarrow> of_le_bytes (rev bs))"

text \<open>The bytes of \<open>ctm.matrix\<close>, and the element \<open>((uint32_t*) ctm.matrix)[i]\<close>.\<close>

definition matrix_bytes :: "byte_order \<Rightarrow> 64 word list \<Rightarrow> 8 word list" where
  "matrix_bytes bo matrix = concat (map (object_bytes bo 8) matrix)"

definition uint32_at :: "byte_order \<Rightarrow> 8 word list \<Rightarrow> nat \<Rightarrow> 32 word" where
  "uint32_at bo mem i = object_value bo (take 4 (drop (4 * i) mem))"

text \<open>
  The platform: its byte order, and whether it defines an access through an lvalue of
  another type. In C as the standard defines it, \<open>type_punning\<close> is \<open>False\<close>.
\<close>

record platform =
  endian :: byte_order
  type_punning :: bool

text \<open>
  The read \<open>((uint32_t*)ctm.matrix)[i]\<close>: undefined (\<open>None\<close>) unless the platform
  defines it.
\<close>

definition aliased_uint32 :: "platform \<Rightarrow> 8 word list \<Rightarrow> nat \<Rightarrow> 32 word option" where
  "aliased_uint32 pf mem i =
     (if type_punning pf then Some (uint32_at (endian pf) mem i) else None)"

text \<open>
  The loop \<open>for (i = 0; i < 18; i++) padded_ctm[i] = ((uint32_t*)ctm.matrix)[i]\<close>.
  The elements of \<open>padded_ctm\<close> have the type \<open>long\<close>, of a width \<open>'l\<close> that the
  platform chooses; the assignment extends the unsigned 32-bit value with zeros.
  \<open>ctm.matrix\<close> has nine entries by its type. One undefined read leaves the whole
  result undefined.
\<close>

definition pad_ctm :: "platform \<Rightarrow> 64 word list \<Rightarrow> 'l::len word list option" where
  "pad_ctm pf matrix =
     map_option (map ucast)
       (those (map (aliased_uint32 pf (matrix_bytes (endian pf) matrix)) [0..<18]))"

section \<open>The display service\<close>

text \<open>
  Xlib and RandR are not part of the repository. Their constants are those of the X11
  headers; their entry points are taken as parameters.
\<close>

type_synonym XID = nat
type_synonym RROutput = XID
type_synonym Atom = nat

definition Success :: int where "Success = 0"
definition BadAtom :: int where "BadAtom = 5"
definition BadName :: int where "BadName = 15"
definition XA_INTEGER :: Atom where "XA_INTEGER = 19"
definition PropModeReplace :: nat where "PropModeReplace = 0"
definition PROP_CTM :: string where "PROP_CTM = ''CTM''"

datatype randr_format = FORMAT_16_BIT | FORMAT_32_BIT

fun format_bits :: "randr_format \<Rightarrow> nat" where
  "format_bits FORMAT_16_BIT = 16"
| "format_bits FORMAT_32_BIT = 32"

text \<open>
  The Xlib structures. Of \<open>XRROutputInfo\<close> main.c reads the name only, of
  \<open>XRRScreenResources\<close> the array of outputs (\<open>noutput\<close> is its length); of
  \<open>XRRPropertyInfo\<close> it reads nothing, it only tests the pointer.
\<close>

record XRROutputInfo =
  name :: string

record XRRPropertyInfo =
  pending :: bool
  immutable :: bool
  num_values :: int

record XRRScreenResources =
  outputs :: "RROutput list"

text \<open>
  The calls made through a display connection, with their arguments. \<open>'b\<close> is the type
  of the data that \<open>blob_data\<close> points to.
\<close>

datatype 'b xrequest =
    InternAtom string bool
  | GetOutputInfo RROutput
  | QueryOutputProperty RROutput Atom
  | ChangeOutputProperty RROutput Atom Atom nat nat 'b nat
  | Sync bool

text \<open>
  The display service behind the connection, with a state \<open>'s\<close> of its own. A protocol
  error that the service reports reaches the program through Xlib's error handler; main.c
  installs none, so Xlib's default handler is in force, which ends the process. That
  outcome of a call is \<open>None\<close>. The two lookups and the query are read-only requests
  (main.c interns atoms with \<open>only_if_exists\<close> set); of a pointer result, the inner
  \<open>None\<close> is \<open>NULL\<close>.
\<close>

record ('s, 'b) xservice =
  srv_intern_atom :: "'s \<Rightarrow> string \<Rightarrow> bool \<Rightarrow> Atom option"
  srv_get_output_info :: "'s \<Rightarrow> RROutput \<Rightarrow> XRROutputInfo option option"
  srv_query_output_property :: "'s \<Rightarrow> RROutput \<Rightarrow> Atom \<Rightarrow> XRRPropertyInfo option option"
  srv_change_output_property ::
    "'s \<Rightarrow> RROutput \<Rightarrow> Atom \<Rightarrow> Atom \<Rightarrow> nat \<Rightarrow> nat \<Rightarrow> 'b \<Rightarrow> nat \<Rightarrow> 's option"
  srv_sync :: "'s \<Rightarrow> bool \<Rightarrow> 's option"

text \<open>
  The connection \<open>Display *dpy\<close>: the state of the service and the calls made so far,
  the latest last.
\<close>

record ('s, 'b) Display =
  server :: 's
  requests :: "'b xrequest list"

definition issue :: "'b xrequest \<Rightarrow> ('s, 'b) Display \<Rightarrow> ('s, 'b) Display" where
  "issue rq dpy = dpy\<lparr>requests := requests dpy @ [rq]\<rparr>"

definition XInternAtom ::
  "('s, 'b) xservice \<Rightarrow> ('s, 'b) Display \<Rightarrow> string \<Rightarrow> bool \<Rightarrow> (Atom \<times> ('s, 'b) Display) option" where
  "XInternAtom X dpy atom_name only_if_exists =
     map_option (\<lambda>a. (a, issue (InternAtom atom_name only_if_exists) dpy))
       (srv_intern_atom X (server dpy) atom_name only_if_exists)"

definition XRRGetOutputInfo ::
  "('s, 'b) xservice \<Rightarrow> ('s, 'b) Display \<Rightarrow> RROutput
     \<Rightarrow> (XRROutputInfo option \<times> ('s, 'b) Display) option" where
  "XRRGetOutputInfo X dpy output =
     map_option (\<lambda>info. (info, issue (GetOutputInfo output) dpy))
       (srv_get_output_info X (server dpy) output)"

definition XRRQueryOutputProperty ::
  "('s, 'b) xservice \<Rightarrow> ('s, 'b) Display \<Rightarrow> RROutput \<Rightarrow> Atom
     \<Rightarrow> (XRRPropertyInfo option \<times> ('s, 'b) Display) option" where
  "XRRQueryOutputProperty X dpy output property =
     map_option (\<lambda>info. (info, issue (QueryOutputProperty output property) dpy))
       (srv_query_output_property X (server dpy) output property)"

definition XRRChangeOutputProperty ::
  "('s, 'b) xservice \<Rightarrow> ('s, 'b) Display \<Rightarrow> RROutput \<Rightarrow> Atom \<Rightarrow> Atom \<Rightarrow> nat \<Rightarrow> nat \<Rightarrow> 'b \<Rightarrow> nat
     \<Rightarrow> ('s, 'b) Display option" where
  "XRRChangeOutputProperty X dpy output property type format mode data nelements =
     map_option
       (\<lambda>s. issue (ChangeOutputProperty output property type format mode data nelements)
          (dpy\<lparr>server := s\<rparr>))
       (srv_change_output_property X (server dpy) output property type format mode data nelements)"

definition XSync ::
  "('s, 'b) xservice \<Rightarrow> ('s, 'b) Display \<Rightarrow> bool \<Rightarrow> ('s, 'b) Display option" where
  "XSync X dpy discard =
     map_option (\<lambda>s. issue (Sync discard) (dpy\<lparr>server := s\<rparr>)) (srv_sync X (server dpy) discard)"

text \<open>
  How a function of main.c that calls Xlib ends: it returns, the process ends inside
  Xlib's error handler, or the behaviour is undefined in C.
\<close>

datatype 'a outcome = Return 'a | Exit | Undefined

section \<open>find_output_by_name\<close>

text \<open>
  The loop over \<open>res->outputs\<close>, from index 0 up. \<open>strcmp\<close> is zero exactly when the two
  strings are equal. The result is the X id of the output, or 0 (\<open>None\<close>) after the loop.
  The name is read through the pointer that \<open>XRRGetOutputInfo\<close> returns, without a check
  for \<open>NULL\<close>.
\<close>

fun find_output_loop ::
  "('s, 'b) xservice \<Rightarrow> ('s, 'b) Display \<Rightarrow> RROutput list \<Rightarrow> string
     \<Rightarrow> (RROutput \<times> ('s, 'b) Display) outcome" where
  "find_output_loop X dpy [] output_name = Return (0, dpy)"
| "find_output_loop X dpy (ret # rest) output_name =
     (case XRRGetOutputInfo X dpy ret of
        None \<Rightarrow> Exit
      | Some (None, dpy') \<Rightarrow> Undefined
      | Some (Some output_info, dpy') \<Rightarrow>
          if output_name = name output_info then Return (ret, dpy')
          else find_output_loop X dpy' rest output_name)"

definition find_output_by_name ::
  "('s, 'b) xservice \<Rightarrow> ('s, 'b) Display \<Rightarrow> XRRScreenResources \<Rightarrow> string
     \<Rightarrow> (RROutput \<times> ('s, 'b) Display) outcome" where
  "find_output_by_name X dpy res output_name = find_output_loop X dpy (outputs res) output_name"

section \<open>set_output_blob and set_ctm\<close>

text \<open>
  \<open>set_output_blob\<close> looks the atom of the property name up (\<open>only_if_exists\<close> is 1),
  returns \<open>BadAtom\<close> when there is none, asks whether the output has the property,
  returns \<open>BadName\<close> when the answer is \<open>NULL\<close>, and otherwise changes the property
  and synchronises before it returns \<open>Success\<close>. The number of elements is
  \<open>blob_bytes / (format >> 3)\<close>. The messages written with \<open>printf\<close> are left out, here
  and in the other functions.
\<close>

definition set_output_blob ::
  "('s, 'b) xservice \<Rightarrow> ('s, 'b) Display \<Rightarrow> RROutput \<Rightarrow> string \<Rightarrow> 'b \<Rightarrow> nat \<Rightarrow> randr_format
     \<Rightarrow> (int \<times> ('s, 'b) Display) option" where
  "set_output_blob X dpy output prop_name blob_data blob_bytes format =
     (case XInternAtom X dpy prop_name True of
        None \<Rightarrow> None
      | Some (prop_atom, dpy1) \<Rightarrow>
          if prop_atom = 0 then Some (BadAtom, dpy1)
          else
            (case XRRQueryOutputProperty X dpy1 output prop_atom of
               None \<Rightarrow> None
             | Some (prop_info, dpy2) \<Rightarrow>
                 if prop_info = None then Some (BadName, dpy2)
                 else
                   (case XRRChangeOutputProperty X dpy2 output prop_atom XA_INTEGER
                           (format_bits format) PropModeReplace blob_data
                           (blob_bytes div drop_bit 3 (format_bits format)) of
                      None \<Rightarrow> None
                    | Some dpy3 \<Rightarrow>
                        (case XSync X dpy3 False of
                           None \<Rightarrow> None
                         | Some dpy4 \<Rightarrow> Some (Success, dpy4)))))"

text \<open>\<open>sizeof(struct _drm_color_ctm)\<close>: nine entries of eight bytes.\<close>

definition blob_size :: nat where
  "blob_size = 9 * 8"

text \<open>
  \<open>set_ctm\<close> translates the coefficients, copies the matrix into \<open>padded_ctm\<close> and
  sets the property \<open>CTM\<close> from it, as 32-bit elements.
\<close>

definition set_ctm ::
  "('s, 'l::len word list) xservice \<Rightarrow> platform \<Rightarrow> ('s, 'l word list) Display \<Rightarrow> RROutput
     \<Rightarrow> double list \<Rightarrow> (int \<times> ('s, 'l word list) Display) outcome" where
  "set_ctm X pf dpy output coeffs =
     (case coeffs_to_ctm coeffs of
        None \<Rightarrow> Undefined
      | Some ctm \<Rightarrow>
          (case pad_ctm pf ctm of
             None \<Rightarrow> Undefined
           | Some padded_ctm \<Rightarrow>
               (case set_output_blob X dpy output PROP_CTM padded_ctm blob_size FORMAT_32_BIT of
                  None \<Rightarrow> Exit
                | Some r \<Rightarrow> Return r)))"

section \<open>parse_user_ctm\<close>

text \<open>
  \<open>ctm_opt\<close> is \<open>None\<close> for the \<open>NULL\<close> pointer. \<open>strtod\<close> belongs to the C library
  and is a parameter. The function returns its \<open>int\<close> result together with the array
  \<open>coeffs\<close>, which it overwrites only when it returns 1.
\<close>

definition saturation_temp :: "(real \<Rightarrow> real) \<Rightarrow> double \<Rightarrow> double list" where
  "saturation_temp rnd val =
     (let s = d_div rnd (d_sub rnd (Finite 1) val) (Finite 3) in
      [d_add rnd s val, s, s,
       s, d_add rnd s val, s,
       s, s, d_add rnd s val])"

definition identity_temp :: "double list" where
  "identity_temp =
     [Finite 1, Finite 0, Finite 0,
      Finite 0, Finite 1, Finite 0,
      Finite 0, Finite 0, Finite 1]"

definition parse_user_ctm ::
  "(real \<Rightarrow> real) \<Rightarrow> (string \<Rightarrow> double) \<Rightarrow> string option \<Rightarrow> double list \<Rightarrow> int \<times> double list" where
  "parse_user_ctm rnd strtod ctm_opt coeffs =
     (case ctm_opt of
        None \<Rightarrow> (0, coeffs)
      | Some opt \<Rightarrow>
          if opt = ''default'' then (1, identity_temp)
          else
            (let val = strtod opt in
             if d_not val then (0, coeffs)
             else (1, saturation_temp rnd val)))"

section \<open>Reference functions of the specification\<close>

text \<open>
  The reference decoding of a stored entry, in the words of the specification: if the
  sign bit is set, negate the magnitude held in the low 63 bits, otherwise take the
  magnitude; then divide by \<open>2 ^ 32\<close>.
\<close>

definition reference_decode :: "64 word \<Rightarrow> real" where
  "reference_decode w =
     (if bit w 63 then - real_of_int (uint (take_bit 63 w)) else real_of_int (uint (take_bit 63 w)))
       / 2 ^ 32"

text \<open>
  The two 32-bit halves of a 64-bit entry in native order: the low half first on a
  little-endian platform, the high half first on a big-endian one.
\<close>

definition halves :: "byte_order \<Rightarrow> 64 word \<Rightarrow> 32 word list" where
  "halves bo w =
     (case bo of
        LittleEndian \<Rightarrow> [ucast w, ucast (drop_bit 32 w)]
      | BigEndian \<Rightarrow> [ucast (drop_bit 32 w), ucast w])"

text \<open>
  Unpacking, in the words of the specification: consecutive pairs of 32-bit words are
  put together again into 64-bit values, in the order in which they were split (on a
  little-endian platform the low half comes first, on a big-endian one the high half).
\<close>

definition join_halves :: "32 word \<Rightarrow> 32 word \<Rightarrow> 64 word" where
  "join_halves hi lo = push_bit 32 (ucast hi) OR ucast lo"

fun unpack :: "byte_order \<Rightarrow> 'l::len word list \<Rightarrow> 64 word list" where
  "unpack bo (a # b # ws) =
     (case bo of
        LittleEndian \<Rightarrow> join_halves (ucast b) (ucast a)
      | BigEndian \<Rightarrow> join_halves (ucast a) (ucast b)) # unpack bo ws"
| "unpack bo ws = []"

section \<open>An example environment\<close>

text \<open>
  A small display service to run the functions on: it knows some atoms and some
  outputs, each output advertises some properties, and some of those are immutable.
  A change of a property is queued until the next synchronisation. Synchronising applies
  the queued changes; a queued change of an immutable property is an error, which the
  service reports.
\<close>

record 'b fake_server =
  fs_atoms :: "(string \<times> Atom) list"
  fs_outputs :: "(RROutput \<times> string) list"
  fs_properties :: "(RROutput \<times> Atom) list"
  fs_immutable :: "(RROutput \<times> Atom) list"
  fs_queued :: "(RROutput \<times> Atom \<times> 'b) list"
  fs_applied :: "(RROutput \<times> Atom \<times> 'b) list"

definition fake_service :: "('b fake_server, 'b) xservice" where
  "fake_service =
     \<lparr>srv_intern_atom = (\<lambda>s atom_name only_if_exists.
        Some (case map_of (fs_atoms s) atom_name of None \<Rightarrow> 0 | Some a \<Rightarrow> a)),
      srv_get_output_info = (\<lambda>s output.
        map_option (\<lambda>n. Some \<lparr>name = n\<rparr>) (map_of (fs_outputs s) output)),
      srv_query_output_property = (\<lambda>s output property.
        Some (if (output, property) \<in> set (fs_properties s)
              then Some \<lparr>pending = False,
                         immutable = ((output, property) \<in> set (fs_immutable s)),
                         num_values = 0\<rparr>
              else None)),
      srv_change_output_property = (\<lambda>s output property type format mode data nelements.
        Some (s\<lparr>fs_queued := fs_queued s @ [(output, property, data)]\<rparr>)),
      srv_sync = (\<lambda>s discard.
        if list_ex (\<lambda>(output, property, data). (output, property) \<in> set (fs_immutable s))
             (fs_queued s)
        then None
        else Some (s\<lparr>fs_applied := fs_applied s @ fs_queued s, fs_queued := []\<rparr>))\<rparr>"

text \<open>A connection to it on a platform whose \<open>long\<close> has 64 bits, with no call made yet.\<close>

definition fake_display :: "(64 word list fake_server, 64 word list) Display" where
  "fake_display =
     \<lparr>server =
        \<lparr>fs_atoms = [(''CTM'', 70), (''EDID'', 71)],
         fs_outputs = [(66, ''HDMI-A-0''), (67, ''DisplayPort-0''), (68, ''HDMI-A-0'')],
         fs_properties = [(67, 70), (67, 71), (66, 71)],
         fs_immutable = [(67, 71), (66, 71)],
         fs_queued = [],
         fs_applied = []\<rparr>,
      requests = []\<rparr>"

text \<open>
  The values of \<open>strtod\<close> on the argument strings of the examples below: four decimal
  numbers, the negative zero, and zero for \<open>0\<close>, \<open>0.0\<close> and a string that is no number.
\<close>

definition strtod_example :: "string \<Rightarrow> double" where
  "strtod_example s =
     (if s = ''1'' then Finite 1
      else if s = ''0.5'' then Finite (1 / 2)
      else if s = ''-1'' then Finite (- 1)
      else if s = ''2'' then Finite 2
      else if s = ''-0'' then NegZero
      else Finite 0)"

section \<open>Properties of the encoder\<close>

lemma two63_le_DBL_MAX: "2 ^ 63 \<le> DBL_MAX"
proof -
  have "(2::real) ^ 63 \<le> 2 ^ 971" by (rule power_increasing) simp_all
  also have "\<dots> \<le> (2 ^ 53 - 1) * 2 ^ 971" by simp
  finally show ?thesis by (simp add: DBL_MAX_def)
qed

lemma d_mul_pow2_in_range:
  assumes "\<bar>r\<bar> * 2 ^ 32 < 2 ^ 63"
  shows "d_mul_pow2 (Finite r) 32 = Finite (r * 2 ^ 32)"
proof -
  have "\<bar>r * 2 ^ 32\<bar> = \<bar>r\<bar> * 2 ^ 32" by (simp add: abs_mult)
  with assms two63_le_DBL_MAX have "\<not> DBL_MAX < \<bar>r * 2 ^ 32\<bar>" by linarith
  then show ?thesis by simp
qed

lemma d_to_int64_nonneg:
  assumes "0 \<le> r" and "r < 2 ^ 63"
  shows "d_to_int64 (Finite r) = Some (word_of_int \<lfloor>r\<rfloor>)"
proof -
  have "0 \<le> \<lfloor>r\<rfloor>" using assms(1) by simp
  moreover have "\<lfloor>r\<rfloor> < 2 ^ 63" using assms(2) by (simp add: floor_less_iff)
  ultimately show ?thesis using assms(1) by (simp add: trunc_def)
qed

lemma coeff_to_ctm_Finite:
  assumes "\<bar>c\<bar> * 2 ^ 32 < 2 ^ 63"
  shows "coeff_to_ctm (Finite c) =
    Some (if c < 0 then word_of_int \<lfloor>\<bar>c\<bar> * 2 ^ 32\<rfloor> OR push_bit 63 1 else word_of_int \<lfloor>\<bar>c\<bar> * 2 ^ 32\<rfloor>)"
proof (cases "c < 0")
  case True
  then have "d_neg (Finite c) = Finite \<bar>c\<bar>" by simp
  moreover have "d_mul_pow2 (Finite \<bar>c\<bar>) 32 = Finite (\<bar>c\<bar> * 2 ^ 32)"
    using assms by (intro d_mul_pow2_in_range) simp
  moreover have "d_to_int64 (Finite (\<bar>c\<bar> * 2 ^ 32)) = Some (word_of_int \<lfloor>\<bar>c\<bar> * 2 ^ 32\<rfloor>)"
    using assms by (intro d_to_int64_nonneg) simp_all
  ultimately show ?thesis using True by (simp add: coeff_to_ctm_def)
next
  case False
  then have c: "\<bar>c\<bar> = c" by simp
  have "d_mul_pow2 (Finite c) 32 = Finite (c * 2 ^ 32)"
    using assms by (intro d_mul_pow2_in_range) simp
  moreover have "d_to_int64 (Finite (c * 2 ^ 32)) = Some (word_of_int \<lfloor>c * 2 ^ 32\<rfloor>)"
    using assms False c by (intro d_to_int64_nonneg) simp_all
  ultimately show ?thesis using False c by (simp add: coeff_to_ctm_def)
qed

lemma uint_magnitude:
  assumes "0 \<le> n" and "n < 2 ^ 63"
  shows "uint (word_of_int n :: 64 word) = n"
proof -
  have "n < 2 ^ 64" using assms(2) by simp
  then show ?thesis using assms(1) by (simp add: uint_word_of_int take_bit_int_eq_self)
qed

lemma bit63_magnitude:
  assumes "0 \<le> n" and "n < 2 ^ 63"
  shows "\<not> bit (word_of_int n :: 64 word) 63"
proof -
  have "take_bit 63 n = n" using assms by (simp add: take_bit_int_eq_self)
  then have "\<not> bit n 63"
    by (metis bit_take_bit_iff less_irrefl)
  then show ?thesis by (simp add: bit_word_of_int_iff)
qed

lemma take_bit63_magnitude:
  assumes "0 \<le> n" and "n < 2 ^ 63"
  shows "take_bit 63 (word_of_int n :: 64 word) = word_of_int n"
proof (rule bit_word_eqI)
  fix k assume "k < LENGTH(64)"
  show "bit (take_bit 63 (word_of_int n :: 64 word)) k = bit (word_of_int n :: 64 word) k"
    using bit63_magnitude [OF assms] \<open>k < LENGTH(64)\<close>
    by (cases "k = 63") (auto simp: bit_take_bit_iff)
qed

lemma take_bit63_signed:
  "take_bit 63 (m OR push_bit 63 1 :: 64 word) = take_bit 63 m"
  by (rule bit_word_eqI) (auto simp: bit_take_bit_iff bit_or_iff bit_push_bit_iff)

lemma bit63_signed: "bit (m OR push_bit 63 1 :: 64 word) 63"
  by (simp add: bit_or_iff bit_push_bit_iff)

lemma uint_split63:
  "uint (w :: 64 word) = (if bit w 63 then 2 ^ 63 else 0) + uint (take_bit 63 w)"
proof -
  have "uint w < 2 ^ Suc 63"
    using uint_lt2p [of w] by simp
  then have "uint w = take_bit (Suc 63) (uint w)"
    by (simp add: take_bit_int_eq_self)
  also have "\<dots> = 2 ^ 63 * of_bool (bit (uint w) 63) + take_bit 63 (uint w)"
    by (rule take_bit_Suc_from_most)
  finally show ?thesis
    by (cases "bit w 63") (simp_all add: bit_uint_iff unsigned_take_bit_eq)
qed


lemma coeff_to_ctm_Finite_props:
  assumes "\<bar>c\<bar> * 2 ^ 32 < 2 ^ 63"
  obtains w where "coeff_to_ctm (Finite c) = Some w" and "bit w 63 \<longleftrightarrow> c < 0"
    and "uint (take_bit 63 w) = \<lfloor>\<bar>c\<bar> * 2 ^ 32\<rfloor>"
proof -
  let ?n = "\<lfloor>\<bar>c\<bar> * 2 ^ 32\<rfloor>"
  let ?m = "word_of_int ?n :: 64 word"
  have n0: "0 \<le> ?n" by simp
  have n1: "?n < 2 ^ 63" using assms by (simp add: floor_less_iff)
  show thesis
  proof (cases "c < 0")
    case True
    show thesis
    proof (rule that)
      show "coeff_to_ctm (Finite c) = Some (?m OR push_bit 63 1)"
        using coeff_to_ctm_Finite [OF assms] True by simp
      show "bit (?m OR push_bit 63 1) 63 \<longleftrightarrow> c < 0"
        using True bit63_signed [of ?m] by simp
      show "uint (take_bit 63 (?m OR push_bit 63 1)) = ?n"
        by (simp only: take_bit63_signed take_bit63_magnitude [OF n0 n1] uint_magnitude [OF n0 n1])
    qed
  next
    case False
    show thesis
    proof (rule that)
      show "coeff_to_ctm (Finite c) = Some ?m"
        using coeff_to_ctm_Finite [OF assms] False by simp
      show "bit ?m 63 \<longleftrightarrow> c < 0"
        using False bit63_magnitude [OF n0 n1] by simp
      show "uint (take_bit 63 ?m) = ?n"
        by (simp only: take_bit63_magnitude [OF n0 n1] uint_magnitude [OF n0 n1])
    qed
  qed
qed

lemma coeff_to_ctm_fits:
  assumes "fits_q31_32 d"
  obtains w where "coeff_to_ctm d = Some w" and "bit w 63 \<longleftrightarrow> d_val d < 0"
    and "uint (take_bit 63 w) = \<lfloor>\<bar>d_val d\<bar> * 2 ^ 32\<rfloor>"
proof (cases d)
  case (Finite c)
  then have "\<bar>c\<bar> * 2 ^ 32 < 2 ^ 63" using assms by (simp add: fits_q31_32_def)
  then obtain w where "coeff_to_ctm (Finite c) = Some w" "bit w 63 \<longleftrightarrow> c < 0"
    "uint (take_bit 63 w) = \<lfloor>\<bar>c\<bar> * 2 ^ 32\<rfloor>"
    by (rule coeff_to_ctm_Finite_props)
  with Finite that show thesis by simp
next
  case NegZero
  have "coeff_to_ctm NegZero = Some 0" by (simp add: coeff_to_ctm_def)
  with NegZero that [of 0] show thesis by simp
qed (use assms in \<open>simp_all add: fits_q31_32_def\<close>)

lemma fits_d_neg:
  assumes "fits_q31_32 d"
  shows "fits_q31_32 (d_neg d)" and "d_val (d_neg d) = - d_val d"
  using assms by (cases d; simp add: fits_q31_32_def)+

lemma entry_signed_magnitude:
  assumes "fits_q31_32 d" and "coeff_to_ctm d = Some w" and "coeff_to_ctm (d_neg d) = Some w'"
  shows "(bit w 63 \<longleftrightarrow> d_val d < 0)
    \<and> uint (take_bit 63 w) = trunc (\<bar>d_val d\<bar> * 2 ^ 32)
    \<and> uint w = (if d_val d < 0 then 2 ^ 63 else 0) + trunc (\<bar>d_val d\<bar> * 2 ^ 32)
    \<and> take_bit 63 w' = take_bit 63 w
    \<and> (bit w' 63 \<longleftrightarrow> 0 < d_val d)"
proof -
  have t: "trunc (\<bar>d_val d\<bar> * 2 ^ 32) = \<lfloor>\<bar>d_val d\<bar> * 2 ^ 32\<rfloor>"
    by (simp add: trunc_def)
  from assms(1) obtain v where "coeff_to_ctm d = Some v" "bit v 63 \<longleftrightarrow> d_val d < 0"
    "uint (take_bit 63 v) = \<lfloor>\<bar>d_val d\<bar> * 2 ^ 32\<rfloor>"
    by (rule coeff_to_ctm_fits)
  with assms(2) have w: "bit w 63 \<longleftrightarrow> d_val d < 0"
    "uint (take_bit 63 w) = \<lfloor>\<bar>d_val d\<bar> * 2 ^ 32\<rfloor>" by simp_all
  from fits_d_neg(1) [OF assms(1)] obtain v' where "coeff_to_ctm (d_neg d) = Some v'"
    "bit v' 63 \<longleftrightarrow> d_val (d_neg d) < 0"
    "uint (take_bit 63 v') = \<lfloor>\<bar>d_val (d_neg d)\<bar> * 2 ^ 32\<rfloor>"
    by (rule coeff_to_ctm_fits)
  with assms(3) fits_d_neg(2) [OF assms(1)] have w': "bit w' 63 \<longleftrightarrow> 0 < d_val d"
    "uint (take_bit 63 w') = \<lfloor>\<bar>d_val d\<bar> * 2 ^ 32\<rfloor>" by simp_all
  have "uint (take_bit 63 w') = uint (take_bit 63 w)" using w(2) w'(2) by simp
  then have low: "take_bit 63 w' = take_bit 63 w" by (simp add: word_uint_eq_iff)
  have u: "uint w = (if d_val d < 0 then 2 ^ 63 else 0) + \<lfloor>\<bar>d_val d\<bar> * 2 ^ 32\<rfloor>"
    using uint_split63 [of w] w by simp
  from w w' low u show ?thesis unfolding t by simp
qed

lemma entry_decode_error:
  assumes "fits_q31_32 d" and "coeff_to_ctm d = Some w"
  shows "\<bar>reference_decode w - d_val d\<bar> < 1 / 2 ^ 32"
proof -
  define c where "c = d_val d"
  from assms(1) obtain v where "coeff_to_ctm d = Some v" "bit v 63 \<longleftrightarrow> d_val d < 0"
    "uint (take_bit 63 v) = \<lfloor>\<bar>d_val d\<bar> * 2 ^ 32\<rfloor>"
    by (rule coeff_to_ctm_fits)
  with assms(2) have w: "bit w 63 \<longleftrightarrow> c < 0" "uint (take_bit 63 w) = \<lfloor>\<bar>c\<bar> * 2 ^ 32\<rfloor>"
    by (simp_all add: c_def)
  define K :: real where "K = 2 ^ 32"
  have K: "0 < K" by (simp add: K_def)
  define n where "n = real_of_int \<lfloor>\<bar>c\<bar> * K\<rfloor>"
  have lo: "n \<le> \<bar>c\<bar> * K" unfolding n_def by (rule of_int_floor_le)
  have hi: "\<bar>c\<bar> * K < n + 1" unfolding n_def by (rule real_of_int_floor_add_one_gt)
  have dec: "reference_decode w = (if c < 0 then - n else n) / K"
    using w by (simp add: reference_decode_def K_def n_def)
  have "(reference_decode w - c) * K = (if c < 0 then - n else n) - c * K"
    using K by (simp add: dec left_diff_distrib)
  then have "(reference_decode w - c) * K = (if c < 0 then - (n - \<bar>c\<bar> * K) else n - \<bar>c\<bar> * K)"
    by (simp split: if_splits)
  then have "\<bar>(reference_decode w - c) * K\<bar> = \<bar>n - \<bar>c\<bar> * K\<bar>"
    by (metis abs_minus_cancel)
  also have "\<dots> < 1" using lo hi by linarith
  finally have "\<bar>reference_decode w - c\<bar> * K < 1"
    using K by (simp add: abs_mult)
  then have "\<bar>reference_decode w - c\<bar> < 1 / K"
    using K by (simp add: pos_less_divide_eq)
  then show ?thesis unfolding K_def c_def .
qed

text \<open>The array: entry \<open>i\<close> of the result is the encoding of \<open>coeffs[i]\<close>.\<close>

lemma those_eq_Some:
  "those xs = Some ys \<longleftrightarrow> length ys = length xs \<and> (\<forall>i<length xs. xs ! i = Some (ys ! i))"
proof (induction xs arbitrary: ys)
  case Nil
  then show ?case by auto
next
  case (Cons x xs)
  show ?case
  proof (cases ys)
    case Nil
    then show ?thesis by (auto split: option.splits)
  next
    case (Cons y zs)
    then show ?thesis
      using Cons.IH [of zs]
      by (auto simp: less_Suc_eq_0_disj split: option.splits)
  qed
qed

lemma coeffs_to_ctm_nth:
  assumes "length coeffs = 9"
  shows "coeffs_to_ctm coeffs = Some ctm
    \<longleftrightarrow> length ctm = 9 \<and> (\<forall>i<9. coeff_to_ctm (coeffs ! i) = Some (ctm ! i))"
  using assms by (auto simp: coeffs_to_ctm_def those_eq_Some)

lemma coeffs_to_ctm_fits:
  assumes "length coeffs = 9" and "\<forall>i<9. fits_q31_32 (coeffs ! i)"
  obtains ctm where "coeffs_to_ctm coeffs = Some ctm" and "length ctm = 9"
    and "\<forall>i<9. coeff_to_ctm (coeffs ! i) = Some (ctm ! i)"
proof -
  define ctm where "ctm = map (\<lambda>i. the (coeff_to_ctm (coeffs ! i))) [0..<9]"
  have len: "length ctm = 9" by (simp add: ctm_def)
  have nth: "coeff_to_ctm (coeffs ! i) = Some (ctm ! i)" if "i < 9" for i
  proof -
    from assms(2) that have "fits_q31_32 (coeffs ! i)" by simp
    then obtain w where "coeff_to_ctm (coeffs ! i) = Some w" by (rule coeff_to_ctm_fits)
    moreover have "ctm ! i = the (coeff_to_ctm (coeffs ! i))"
      using that by (simp add: ctm_def del: upt_Suc)
    ultimately show ?thesis by simp
  qed
  then have "coeffs_to_ctm coeffs = Some ctm"
    using len by (simp add: coeffs_to_ctm_nth [OF assms(1)])
  with len nth that show thesis by blast
qed

text \<open>
  Outside the domain of the encoder: an infinity or a NaN has no encoding, nor has an
  array of fewer than nine coefficients; of a longer array the first nine count.
\<close>

lemma coeff_to_ctm_not_finite:
  "coeff_to_ctm PosInf = None" "coeff_to_ctm NegInf = None" "coeff_to_ctm NaN = None"
  by (simp_all add: coeff_to_ctm_def)

lemma coeffs_to_ctm_short:
  assumes "length coeffs < 9"
  shows "coeffs_to_ctm coeffs = None"
  using assms by (simp add: coeffs_to_ctm_def)

lemma coeffs_to_ctm_first_nine:
  assumes "length coeffs = 9"
  shows "coeffs_to_ctm (coeffs @ further) = coeffs_to_ctm coeffs"
  using assms by (simp add: coeffs_to_ctm_def)

text \<open>
  Claim C1, as stated, quantifies over every negative coefficient. The saturation value
  \<open>-3221225472.5\<close> gives the matrix whose diagonal entries are \<open>- 2 ^ 31\<close>. The scaled
  magnitude of such an entry is \<open>2 ^ 63\<close>, which no \<open>int64_t\<close> holds: the cast is
  undefined, and no 63-bit field can equal the magnitude.
\<close>

theorem coeffs_to_ctm_out_of_range:
  "saturation_temp id (Finite (- 6442450945 / 2))
     = [Finite (- 2147483648), Finite (2147483649 / 2), Finite (2147483649 / 2),
        Finite (2147483649 / 2), Finite (- 2147483648), Finite (2147483649 / 2),
        Finite (2147483649 / 2), Finite (2147483649 / 2), Finite (- 2147483648)]
   \<and> coeffs_to_ctm
        [Finite (- 2147483648), Finite (2147483649 / 2), Finite (2147483649 / 2),
         Finite (2147483649 / 2), Finite (- 2147483648), Finite (2147483649 / 2),
         Finite (2147483649 / 2), Finite (2147483649 / 2), Finite (- 2147483648)]
       = None"
proof -
  have b: "\<not> DBL_MAX < 6442450947 / 2" "\<not> DBL_MAX < 2147483649 / 2"
    "\<not> DBL_MAX < 2147483648" "\<not> DBL_MAX < 9223372036854775808"
    using two63_le_DBL_MAX by simp_all
  have "saturation_temp id (Finite (- 6442450945 / 2))
     = [Finite (- 2147483648), Finite (2147483649 / 2), Finite (2147483649 / 2),
        Finite (2147483649 / 2), Finite (- 2147483648), Finite (2147483649 / 2),
        Finite (2147483649 / 2), Finite (2147483649 / 2), Finite (- 2147483648)]"
    using b by (simp add: saturation_temp_def d_sub_def d_div_def d_round_def Let_def)
  moreover have "coeff_to_ctm (Finite (- 2147483648)) = None"
    using b by (simp add: coeff_to_ctm_def trunc_def)
  ultimately show ?thesis
    by (simp add: coeffs_to_ctm_def)
qed

text \<open>
  Claim C1, amended. Let every coefficient of the array fit the format
  (\<open>\<bar>c\<bar> * 2 ^ 32 < 2 ^ 63\<close>). Then \<open>coeffs_to_ctm\<close> stores nine 64-bit values, and for
  every index \<open>i\<close>, with \<open>c\<close> the value of \<open>coeffs[i]\<close> and \<open>w\<close> the entry \<open>i\<close> stored:
  bit 63 of \<open>w\<close> is set exactly when \<open>c < 0\<close>, the low 63 bits are \<open>\<bar>c\<bar> * 2 ^ 32\<close>
  truncated to an integer, and \<open>w\<close> as an unsigned number is that magnitude plus
  \<open>2 ^ 63\<close> for the sign, so for \<open>c \<ge> 0\<close> the magnitude is stored directly. The entry
  \<open>i\<close> stored for the negated coefficients has the same low 63 bits: the encodings of
  \<open>c\<close> and \<open>- c\<close> differ in the top bit only (and not at all when \<open>c\<close> is zero).
\<close>

theorem coeffs_to_ctm_signed_magnitude:
  assumes "length coeffs = 9" and "\<forall>i<9. fits_q31_32 (coeffs ! i)"
  shows "\<exists>ctm ctm'. coeffs_to_ctm coeffs = Some ctm \<and> length ctm = 9
    \<and> coeffs_to_ctm (map d_neg coeffs) = Some ctm' \<and> length ctm' = 9
    \<and> (\<forall>i<9. (bit (ctm ! i) 63 \<longleftrightarrow> d_val (coeffs ! i) < 0)
          \<and> uint (take_bit 63 (ctm ! i)) = trunc (\<bar>d_val (coeffs ! i)\<bar> * 2 ^ 32)
          \<and> uint (ctm ! i)
              = (if d_val (coeffs ! i) < 0 then 2 ^ 63 else 0)
                + trunc (\<bar>d_val (coeffs ! i)\<bar> * 2 ^ 32)
          \<and> take_bit 63 (ctm' ! i) = take_bit 63 (ctm ! i)
          \<and> (bit (ctm' ! i) 63 \<longleftrightarrow> 0 < d_val (coeffs ! i)))"
proof -
  from assms obtain ctm where ctm: "coeffs_to_ctm coeffs = Some ctm" "length ctm = 9"
    "\<forall>i<9. coeff_to_ctm (coeffs ! i) = Some (ctm ! i)"
    by (rule coeffs_to_ctm_fits)
  have neg: "map d_neg coeffs ! i = d_neg (coeffs ! i)" if "i < 9" for i
    using that assms(1) by simp
  have "length (map d_neg coeffs) = 9" using assms(1) by simp
  moreover have "\<forall>i<9. fits_q31_32 (map d_neg coeffs ! i)"
    using assms(2) neg fits_d_neg(1) by simp
  ultimately obtain ctm' where ctm': "coeffs_to_ctm (map d_neg coeffs) = Some ctm'"
    "length ctm' = 9" "\<forall>i<9. coeff_to_ctm (map d_neg coeffs ! i) = Some (ctm' ! i)"
    by (rule coeffs_to_ctm_fits)
  have "(bit (ctm ! i) 63 \<longleftrightarrow> d_val (coeffs ! i) < 0)
      \<and> uint (take_bit 63 (ctm ! i)) = trunc (\<bar>d_val (coeffs ! i)\<bar> * 2 ^ 32)
      \<and> uint (ctm ! i)
          = (if d_val (coeffs ! i) < 0 then 2 ^ 63 else 0)
            + trunc (\<bar>d_val (coeffs ! i)\<bar> * 2 ^ 32)
      \<and> take_bit 63 (ctm' ! i) = take_bit 63 (ctm ! i)
      \<and> (bit (ctm' ! i) 63 \<longleftrightarrow> 0 < d_val (coeffs ! i))" if "i < 9" for i
  proof (rule entry_signed_magnitude)
    show "fits_q31_32 (coeffs ! i)" using assms(2) that by simp
    show "coeff_to_ctm (coeffs ! i) = Some (ctm ! i)" using ctm(3) that by simp
    show "coeff_to_ctm (d_neg (coeffs ! i)) = Some (ctm' ! i)"
      using ctm'(3) neg that by simp
  qed
  with ctm(1,2) ctm'(1,2) show ?thesis by blast
qed

theorem coeffs_to_ctm_signed_magnitude_witness:
  "length (saturation_temp id (Finite (- 1))) = 9
   \<and> list_all fits_q31_32 (saturation_temp id (Finite (- 1)))
   \<and> coeffs_to_ctm (saturation_temp id (Finite (- 1)))
       = Some [9223372038286431573, 2863311530, 2863311530,
               2863311530, 9223372038286431573, 2863311530,
               2863311530, 2863311530, 9223372038286431573]
   \<and> coeffs_to_ctm (map d_neg (saturation_temp id (Finite (- 1))))
       = Some [1431655765, 9223372039718087338, 9223372039718087338,
               9223372039718087338, 1431655765, 9223372039718087338,
               9223372039718087338, 9223372039718087338, 1431655765]
   \<and> (\<exists>ctm. coeffs_to_ctm (saturation_temp id (Finite (- 1))) = Some ctm
         \<and> bit (ctm ! 0) 63 \<and> uint (take_bit 63 (ctm ! 0)) = 1431655765
         \<and> \<not> bit (ctm ! 1) 63 \<and> uint (ctm ! 1) = 2863311530)"
proof -
  let ?cs = "[Finite (- 1 / 3), Finite (2 / 3), Finite (2 / 3),
              Finite (2 / 3), Finite (- 1 / 3), Finite (2 / 3),
              Finite (2 / 3), Finite (2 / 3), Finite (- 1 / 3)]"
  have b: "\<not> DBL_MAX < 2" "\<not> DBL_MAX < 2 / 3" "\<not> DBL_MAX < 1 / 3"
    using two63_le_DBL_MAX by simp_all
  have m: "saturation_temp id (Finite (- 1)) = ?cs"
    using b by (simp add: saturation_temp_def d_sub_def d_div_def d_round_def Let_def)
  have e1: "coeff_to_ctm (Finite (- (1 / 3))) = Some 9223372038286431573"
    and e2: "coeff_to_ctm (Finite (2 / 3)) = Some 2863311530"
    and e3: "coeff_to_ctm (Finite (1 / 3)) = Some 1431655765"
    and e4: "coeff_to_ctm (Finite (- (2 / 3))) = Some 9223372039718087338"
    using two63_le_DBL_MAX by (simp_all add: coeff_to_ctm_def trunc_def)
  have enc: "coeffs_to_ctm ?cs
       = Some [9223372038286431573, 2863311530, 2863311530,
               2863311530, 9223372038286431573, 2863311530,
               2863311530, 2863311530, 9223372038286431573]"
    by (simp add: coeffs_to_ctm_def e1 e2)
  have neg: "coeffs_to_ctm (map d_neg ?cs)
       = Some [1431655765, 9223372039718087338, 9223372039718087338,
               9223372039718087338, 1431655765, 9223372039718087338,
               9223372039718087338, 9223372039718087338, 1431655765]"
    by (simp add: coeffs_to_ctm_def e3 e4)
  have len: "length ?cs = 9" by simp
  have fits: "\<forall>i<9. fits_q31_32 (?cs ! i)"
    by (simp add: fits_q31_32_def All_less_Suc numeral_eq_Suc del: upt_Suc)
  have all: "list_all fits_q31_32 ?cs" by (simp add: fits_q31_32_def)
  from coeffs_to_ctm_signed_magnitude [OF len fits]
  obtain ctm where ctm: "coeffs_to_ctm ?cs = Some ctm"
    and props: "\<forall>i<9. (bit (ctm ! i) 63 \<longleftrightarrow> d_val (?cs ! i) < 0)
          \<and> uint (take_bit 63 (ctm ! i)) = trunc (\<bar>d_val (?cs ! i)\<bar> * 2 ^ 32)
          \<and> uint (ctm ! i)
              = (if d_val (?cs ! i) < 0 then 2 ^ 63 else 0) + trunc (\<bar>d_val (?cs ! i)\<bar> * 2 ^ 32)"
    by blast
  from props have "bit (ctm ! 0) 63 \<and> uint (take_bit 63 (ctm ! 0)) = 1431655765"
    by (elim allE [of _ 0]) (simp add: trunc_def)
  moreover from props have "\<not> bit (ctm ! 1) 63 \<and> uint (ctm ! 1) = 2863311530"
    by (elim allE [of _ 1]) (simp add: trunc_def)
  ultimately show ?thesis
    using ctm enc neg all by (simp add: m)
qed

text \<open>
  Claim C2. Let every coefficient of the array fit the Q31.32 range
  (\<open>\<bar>c\<bar> * 2 ^ 32 < 2 ^ 63\<close>). Then \<open>coeffs_to_ctm\<close> stores nine values, and for every
  index \<open>i\<close> the reference decoding of the entry \<open>i\<close> stored differs from the value of
  \<open>coeffs[i]\<close> by less than \<open>2\<^sup>-\<^sup>3\<^sup>2\<close>.
\<close>

theorem coeffs_to_ctm_roundtrip:
  assumes "length coeffs = 9" and "\<forall>i<9. fits_q31_32 (coeffs ! i)"
  shows "\<exists>ctm. coeffs_to_ctm coeffs = Some ctm \<and> length ctm = 9
    \<and> (\<forall>i<9. \<bar>reference_decode (ctm ! i) - d_val (coeffs ! i)\<bar> < 1 / 2 ^ 32)"
proof -
  from assms obtain ctm where ctm: "coeffs_to_ctm coeffs = Some ctm" "length ctm = 9"
    "\<forall>i<9. coeff_to_ctm (coeffs ! i) = Some (ctm ! i)"
    by (rule coeffs_to_ctm_fits)
  have "\<bar>reference_decode (ctm ! i) - d_val (coeffs ! i)\<bar> < 1 / 2 ^ 32" if "i < 9" for i
    using assms(2) ctm(3) that by (intro entry_decode_error) simp_all
  with ctm(1,2) show ?thesis by blast
qed

theorem coeffs_to_ctm_roundtrip_witness:
  "length (saturation_temp id (Finite (1 / 2))) = 9
   \<and> list_all fits_q31_32 (saturation_temp id (Finite (1 / 2)))
   \<and> coeffs_to_ctm (saturation_temp id (Finite (1 / 2)))
       = Some [2863311530, 715827882, 715827882,
               715827882, 2863311530, 715827882,
               715827882, 715827882, 2863311530]
   \<and> reference_decode 715827882 = 715827882 / 4294967296
   \<and> \<bar>reference_decode 715827882 - 1 / 6\<bar> < 1 / 2 ^ 32
   \<and> \<bar>reference_decode 2863311530 - 2 / 3\<bar> < 1 / 2 ^ 32"
proof -
  let ?cs = "[Finite (2 / 3), Finite (1 / 6), Finite (1 / 6),
              Finite (1 / 6), Finite (2 / 3), Finite (1 / 6),
              Finite (1 / 6), Finite (1 / 6), Finite (2 / 3)]"
  let ?ctm = "[2863311530, 715827882, 715827882,
               715827882, 2863311530, 715827882,
               715827882, 715827882, 2863311530 :: 64 word]"
  have b: "\<not> DBL_MAX < 1 / 2" "\<not> DBL_MAX < 2 / 3" "\<not> DBL_MAX < 1 / 6"
    using two63_le_DBL_MAX by simp_all
  have m: "saturation_temp id (Finite (1 / 2)) = ?cs"
    using b by (simp add: saturation_temp_def d_sub_def d_div_def d_round_def Let_def)
  have e1: "coeff_to_ctm (Finite (2 / 3)) = Some 2863311530"
    and e2: "coeff_to_ctm (Finite (1 / 6)) = Some 715827882"
    using two63_le_DBL_MAX by (simp_all add: coeff_to_ctm_def trunc_def)
  have enc: "coeffs_to_ctm ?cs = Some ?ctm"
    by (simp add: coeffs_to_ctm_def e1 e2)
  have dec: "reference_decode 715827882 = 715827882 / 4294967296"
    by (simp add: reference_decode_def bit_numeral_word_iff)
  have len: "length ?cs = 9" by simp
  have fits: "\<forall>i<9. fits_q31_32 (?cs ! i)"
    by (simp add: fits_q31_32_def All_less_Suc numeral_eq_Suc del: upt_Suc)
  have all: "list_all fits_q31_32 ?cs" by (simp add: fits_q31_32_def)
  from coeffs_to_ctm_roundtrip [OF len fits] enc
  have err: "\<forall>i<9. \<bar>reference_decode (?ctm ! i) - d_val (?cs ! i)\<bar> < 1 / 2 ^ 32"
    by simp
  from err have "\<bar>reference_decode 2863311530 - 2 / 3\<bar> < 1 / 2 ^ 32"
    by (elim allE [of _ 0]) simp
  moreover from err have "\<bar>reference_decode 715827882 - 1 / 6\<bar> < 1 / 2 ^ 32"
    by (elim allE [of _ 1]) simp
  ultimately show ?thesis
    using enc dec all by (simp add: m)
qed

text \<open>
  Claim C4. For the coefficient zero, also when it is the negative zero \<open>-0.0\<close>, the
  encoder produces the all-zero 64-bit pattern: the magnitude is 0 and the sign bit is
  not set. A matrix of nine zeros of either sign is encoded as nine zero entries.
\<close>

theorem coeff_to_ctm_zero:
  "coeff_to_ctm (Finite 0) = Some 0 \<and> coeff_to_ctm NegZero = Some 0
   \<and> coeffs_to_ctm (replicate 9 (Finite 0)) = Some (replicate 9 0)
   \<and> coeffs_to_ctm (replicate 9 NegZero) = Some (replicate 9 0)"
  by (simp add: coeff_to_ctm_def coeffs_to_ctm_def trunc_def DBL_MAX_def numeral_eq_Suc)



section \<open>Properties of the padded copy\<close>

lemma length_le_bytes: "length (le_bytes n w) = n"
  by (induction n arbitrary: w) simp_all

lemma le_bytes_add: "le_bytes (m + n) w = le_bytes m w @ le_bytes n (drop_bit (8 * m) w)"
  by (induction m arbitrary: w) (simp_all add: drop_bit_drop_bit add.commute)

lemma bit_of_le_bytes:
  "bit (of_le_bytes (le_bytes n (w :: 'a::len word)) :: 'b::len word) k
     \<longleftrightarrow> k < 8 * n \<and> k < LENGTH('b) \<and> bit w k"
proof (induction n arbitrary: w k)
  case 0
  then show ?case by simp
next
  case (Suc n)
  show ?case
  proof (cases "k < 8")
    case True
    then show ?thesis
      by (auto simp: bit_or_iff bit_ucast_iff bit_push_bit_iff dest: bit_imp_le_length)
  next
    case False
    then have k: "k = (k - 8) + 8" by simp
    have "bit (drop_bit 8 w) (k - 8) = bit w k"
      using False by (simp add: bit_drop_bit_eq)
    with False Suc [of "drop_bit 8 w" "k - 8"] show ?thesis
      by (auto simp: bit_or_iff bit_ucast_iff bit_push_bit_iff)
  qed
qed

lemma of_le_bytes_low: "(of_le_bytes (le_bytes 4 (w :: 64 word)) :: 32 word) = ucast w"
  by (rule bit_word_eqI) (simp add: bit_of_le_bytes bit_ucast_iff)

lemma le_bytes_8: "le_bytes 8 (w :: 64 word) = le_bytes 4 w @ le_bytes 4 (drop_bit 32 w)"
  using le_bytes_add [of 4 4 w] by simp

lemma uint32_at_0:
  "uint32_at bo (object_bytes bo 8 (w :: 64 word) @ mem) 0
     = (case bo of LittleEndian \<Rightarrow> ucast w | BigEndian \<Rightarrow> ucast (drop_bit 32 w))"
  by (cases bo)
    (simp_all add: uint32_at_def object_bytes_def object_value_def le_bytes_8 length_le_bytes
      of_le_bytes_low)

lemma uint32_at_1:
  "uint32_at bo (object_bytes bo 8 (w :: 64 word) @ mem) (Suc 0)
     = (case bo of LittleEndian \<Rightarrow> ucast (drop_bit 32 w) | BigEndian \<Rightarrow> ucast w)"
  by (cases bo)
    (simp_all add: uint32_at_def object_bytes_def object_value_def le_bytes_8 length_le_bytes
      of_le_bytes_low)

lemma uint32_at_shift:
  "uint32_at bo (object_bytes bo 8 (w :: 64 word) @ mem) (Suc (Suc i)) = uint32_at bo mem i"
  by (cases bo) (simp_all add: uint32_at_def object_bytes_def length_le_bytes)


lemma upt_Suc_Suc: "[0..<Suc (Suc m)] = 0 # Suc 0 # map (\<lambda>i. Suc (Suc i)) [0..<m]"
proof -
  have step: "[0..<Suc k] = 0 # map Suc [0..<k]" for k
    by (simp only: upt_conv_Cons [OF zero_less_Suc] map_Suc_upt)
  have "[0..<Suc (Suc m)] = 0 # map Suc (0 # map Suc [0..<m])"
    by (simp only: step [of "Suc m"] step [of m])
  then show ?thesis by (simp add: comp_def)
qed

lemma uint32_view:
  "map (uint32_at bo (matrix_bytes bo matrix)) [0..<2 * length matrix]
     = concat (map (halves bo) matrix)"
proof (induction matrix)
  case Nil
  then show ?case by (simp add: matrix_bytes_def)
next
  case (Cons w matrix)
  have mem: "matrix_bytes bo (w # matrix) = object_bytes bo 8 w @ matrix_bytes bo matrix"
    by (simp add: matrix_bytes_def)
  have "map (uint32_at bo (matrix_bytes bo (w # matrix))) [0..<2 * length (w # matrix)]
      = uint32_at bo (object_bytes bo 8 w @ matrix_bytes bo matrix) 0
        # uint32_at bo (object_bytes bo 8 w @ matrix_bytes bo matrix) (Suc 0)
        # map (uint32_at bo (matrix_bytes bo matrix)) [0..<2 * length matrix]"
    by (simp add: mem upt_Suc_Suc uint32_at_shift comp_def del: upt_Suc)
  also have "\<dots> = halves bo w @ concat (map (halves bo) matrix)"
  proof -
    have "[uint32_at bo (object_bytes bo 8 w @ matrix_bytes bo matrix) 0,
           uint32_at bo (object_bytes bo 8 w @ matrix_bytes bo matrix) (Suc 0)] = halves bo w"
      by (cases bo) (simp_all add: uint32_at_0 uint32_at_1 halves_def)
    then show ?thesis by (simp add: Cons.IH flip: append_Cons)
  qed
  finally show ?case by simp
qed

lemma those_aliased_uint32:
  assumes "type_punning pf"
  shows "those (map (aliased_uint32 pf mem) ixs) = Some (map (uint32_at (endian pf) mem) ixs)"
  using assms by (induction ixs) (simp_all add: aliased_uint32_def)

lemma pad_ctm_halves:
  assumes "type_punning pf" and "length matrix = 9"
  shows "pad_ctm pf matrix = Some (map ucast (concat (map (halves (endian pf)) matrix)))"
proof -
  have "pad_ctm pf matrix
      = Some (map ucast (map (uint32_at (endian pf) (matrix_bytes (endian pf) matrix))
          [0..<2 * length matrix]))"
    using assms by (simp add: pad_ctm_def those_aliased_uint32 del: upt_Suc)
  then show ?thesis by (simp only: uint32_view)
qed

lemma pad_ctm_strict_aliasing:
  assumes "\<not> type_punning pf"
  shows "pad_ctm pf matrix = None"
  using assms by (simp add: pad_ctm_def aliased_uint32_def upt_conv_Cons)

lemma join_halves_split: "join_halves (ucast (drop_bit 32 w)) (ucast w) = w"
  unfolding join_halves_def
  by (rule bit_word_eqI)
    (auto simp: bit_or_iff bit_push_bit_iff bit_ucast_iff bit_drop_bit_eq not_less)

lemma ucast_slot:
  assumes "32 \<le> LENGTH('l::len)"
  shows "ucast (ucast (x :: 32 word) :: 'l word) = x"
  using assms by (intro bit_word_eqI) (auto simp: bit_ucast_iff dest: bit_imp_le_length)

lemma unpack_halves:
  assumes "32 \<le> LENGTH('l::len)"
  shows "unpack bo (map ucast (concat (map (halves bo) matrix)) :: 'l word list) = matrix"
proof (induction matrix)
  case Nil
  then show ?case by simp
next
  case (Cons w matrix)
  then show ?case
    by (cases bo) (simp_all add: halves_def ucast_slot [OF assms] join_halves_split)
qed

lemma nth_halves:
  assumes "i < length matrix"
  shows "concat (map (halves bo) matrix) ! (2 * i) = halves bo (matrix ! i) ! 0"
    and "concat (map (halves bo) matrix) ! (2 * i + 1) = halves bo (matrix ! i) ! 1"
  using assms
proof (induction matrix arbitrary: i)
  case Nil
  { case 1 then show ?case by simp }
  { case 2 then show ?case by simp }
next
  case (Cons w matrix)
  have len: "length (halves bo w) = 2" by (cases bo) (simp_all add: halves_def)
  { case 1 then show ?case
      using Cons.IH(1) [of "i - 1"] len by (cases i) (simp_all add: nth_append) }
  { case 2 then show ?case
      using Cons.IH(2) [of "i - 1"] len by (cases i) (simp_all add: nth_append) }
qed

lemma length_halves: "length (concat (map (halves bo) matrix)) = 2 * length matrix"
  by (induction matrix) (simp_all add: halves_def split: byte_order.splits)


text \<open>
  On a platform that defines the read (and \<open>long\<close> has at least 32 bits in C), the
  padded copy of a matrix of nine entries has 18 elements, two for each entry: elements
  \<open>2 * i\<close> and \<open>2 * i + 1\<close> are the two 32-bit halves of entry \<open>i\<close> in native order,
  each extended with zeros to a \<open>long\<close> (so each element holds a 32-bit value), and
  unpacking the 18 elements gives the matrix back.
\<close>

lemma pad_ctm_punning:
  fixes matrix :: "64 word list"
  assumes "type_punning pf" and "length matrix = 9" and "32 \<le> LENGTH('l::len)"
  shows "\<exists>p :: 'l word list. pad_ctm pf matrix = Some p \<and> length p = 18
    \<and> (\<forall>i<9. p ! (2 * i) = ucast (halves (endian pf) (matrix ! i) ! 0)
            \<and> p ! (2 * i + 1) = ucast (halves (endian pf) (matrix ! i) ! 1))
    \<and> (\<forall>x \<in> set p. take_bit 32 x = x)
    \<and> unpack (endian pf) p = matrix"
proof -
  let ?bo = "endian pf"
  let ?h = "concat (map (halves ?bo) matrix)"
  let ?p = "map ucast ?h :: 'l word list"
  have p: "pad_ctm pf matrix = Some ?p"
    using assms(1,2) by (rule pad_ctm_halves)
  have len: "length ?h = 18"
    using assms(2) by (simp add: length_halves)
  have nth: "?p ! (2 * i) = ucast (halves ?bo (matrix ! i) ! 0)
      \<and> ?p ! (2 * i + 1) = ucast (halves ?bo (matrix ! i) ! 1)"
    if "i < 9" for i
  proof -
    have "2 * i < length ?h" and "2 * i + 1 < length ?h" using that len by simp_all
    then show ?thesis
      using that assms(2) by (simp add: nth_halves del: One_nat_def)
  qed
  have slot: "take_bit 32 x = x" if "x \<in> set ?p" for x
  proof -
    from that obtain y :: "32 word" where "x = ucast y" by auto
    have "n < 32" if "bit y n" for n
      using bit_imp_le_length [OF that] by simp
    then show ?thesis
      unfolding \<open>x = ucast y\<close>
      by (intro bit_word_eqI) (auto simp: bit_take_bit_iff bit_ucast_iff)
  qed
  have "unpack ?bo ?p = matrix"
    using assms(3) by (rule unpack_halves)
  with p len nth slot show ?thesis by simp
qed

lemma set_ctm_strict_aliasing:
  assumes "\<not> type_punning pf"
  shows "set_ctm X pf dpy output coeffs = Undefined"
  using assms by (simp add: set_ctm_def pad_ctm_strict_aliasing split: option.splits)

lemma set_ctm_punning:
  assumes "type_punning pf" and "coeffs_to_ctm coeffs = Some ctm" and "length ctm = 9"
  shows "set_ctm X pf dpy output coeffs
    = (case set_output_blob X dpy output ''CTM''
              (map ucast (concat (map (halves (endian pf)) ctm))) 72 FORMAT_32_BIT of
         None \<Rightarrow> Exit
       | Some r \<Rightarrow> Return r)"
  using assms by (simp add: set_ctm_def pad_ctm_halves PROP_CTM_def blob_size_def)

text \<open>
  Claim C3. The claim describes what the copy is written to do (the comment in the
  loop calls it a padded \<open>memcpy\<close>), but the code does it by a read that C leaves
  undefined. For the identity coefficients, \<open>coeffs_to_ctm\<close> stores \<open>2 ^ 32\<close> on the
  diagonal; in C as the standard defines it, the padded copy and with it \<open>set_ctm\<close>
  are undefined, so the 18 words sent are not the halves of the entries. Only on a
  little-endian platform that defines the read are the words \<open>0, 1\<close> for a diagonal
  entry, and \<open>set_ctm\<close> submits these 18 words and returns \<open>Success\<close>.
\<close>

theorem set_ctm_type_punning:
  "coeffs_to_ctm identity_temp
     = Some [4294967296, 0, 0, 0, 4294967296, 0, 0, 0, 4294967296]
   \<and> pad_ctm \<lparr>endian = LittleEndian, type_punning = False\<rparr>
        [4294967296, 0, 0, 0, 4294967296, 0, 0, 0, 4294967296]
       = (None :: 64 word list option)
   \<and> set_ctm fake_service \<lparr>endian = LittleEndian, type_punning = False\<rparr> fake_display 67
        identity_temp
       = Undefined
   \<and> pad_ctm \<lparr>endian = LittleEndian, type_punning = True\<rparr>
        [4294967296, 0, 0, 0, 4294967296, 0, 0, 0, 4294967296]
       = Some [0, 1, 0, 0, 0, 0, 0, 0, 0, 1, 0, 0, 0, 0, 0, 0, 0, 1 :: 64 word]
   \<and> set_ctm fake_service \<lparr>endian = LittleEndian, type_punning = True\<rparr> fake_display 67
        identity_temp
       = Return (Success,
           \<lparr>server = (server fake_display)
              \<lparr>fs_applied := [(67, 70, [0, 1, 0, 0, 0, 0, 0, 0, 0, 1, 0, 0, 0, 0, 0, 0, 0, 1])]\<rparr>,
            requests =
              [InternAtom ''CTM'' True,
               QueryOutputProperty 67 70,
               ChangeOutputProperty 67 70 XA_INTEGER 32 PropModeReplace
                 [0, 1, 0, 0, 0, 0, 0, 0, 0, 1, 0, 0, 0, 0, 0, 0, 0, 1] 18,
               Sync False]\<rparr>)"
proof -
  let ?ctm = "[4294967296, 0, 0, 0, 4294967296, 0, 0, 0, 4294967296 :: 64 word]"
  let ?data = "[0, 1, 0, 0, 0, 0, 0, 0, 0, 1, 0, 0, 0, 0, 0, 0, 0, 1 :: 64 word]"
  let ?strict = "\<lparr>endian = LittleEndian, type_punning = False\<rparr>"
  let ?pun = "\<lparr>endian = LittleEndian, type_punning = True\<rparr>"
  have e1: "coeff_to_ctm (Finite 1) = Some 4294967296"
    and e0: "coeff_to_ctm (Finite 0) = Some 0"
    using two63_le_DBL_MAX by (simp_all add: coeff_to_ctm_def trunc_def)
  have enc: "coeffs_to_ctm identity_temp = Some ?ctm"
    by (simp add: coeffs_to_ctm_def identity_temp_def e1 e0)
  have none: "pad_ctm ?strict ?ctm = (None :: 64 word list option)"
    by (simp add: pad_ctm_strict_aliasing)
  have undef: "set_ctm fake_service ?strict fake_display 67 identity_temp = Undefined"
    by (simp add: set_ctm_strict_aliasing)
  have pad: "pad_ctm ?pun ?ctm = Some ?data"
    by (simp add: pad_ctm_halves halves_def)
  have sent: "set_output_blob fake_service fake_display 67 ''CTM'' ?data 72 FORMAT_32_BIT
     = Some (Success,
         \<lparr>server = (server fake_display)\<lparr>fs_applied := [(67, 70, ?data)]\<rparr>,
          requests =
            [InternAtom ''CTM'' True,
             QueryOutputProperty 67 70,
             ChangeOutputProperty 67 70 XA_INTEGER 32 PropModeReplace ?data 18,
             Sync False]\<rparr>)"
    by (simp add: set_output_blob_def XInternAtom_def XRRQueryOutputProperty_def
        XRRChangeOutputProperty_def XSync_def issue_def fake_service_def fake_display_def
        drop_bit_eq_div)
  have ok: "set_ctm fake_service ?pun fake_display 67 identity_temp
     = Return (Success,
         \<lparr>server = (server fake_display)\<lparr>fs_applied := [(67, 70, ?data)]\<rparr>,
          requests =
            [InternAtom ''CTM'' True,
             QueryOutputProperty 67 70,
             ChangeOutputProperty 67 70 XA_INTEGER 32 PropModeReplace ?data 18,
             Sync False]\<rparr>)"
    by (simp add: set_ctm_def enc pad sent PROP_CTM_def blob_size_def)
  from enc none undef pad ok show ?thesis by simp
qed

section \<open>Properties of the matrix generator\<close>

lemma one_le_DBL_MAX: "1 \<le> DBL_MAX"
  using two63_le_DBL_MAX by simp

lemma d_round_exact:
  assumes "rnd r = r" and "r \<noteq> 0" and "\<bar>r\<bar> \<le> DBL_MAX"
  shows "d_round rnd r = Finite r"
  using assms by (simp add: d_round_def)

lemma saturation_temp_one:
  assumes "rnd 1 = 1"
  shows "saturation_temp rnd (Finite 1) = identity_temp"
proof -
  have s: "d_div rnd (d_sub rnd (Finite 1) (Finite 1)) (Finite 3) = Finite 0"
    by (simp add: d_sub_def d_div_def d_zero_def)
  have d: "d_round rnd 1 = Finite 1"
    using assms one_le_DBL_MAX by (simp add: d_round_def)
  show ?thesis
    by (simp add: saturation_temp_def identity_temp_def s d Let_def)
qed

lemma saturation_temp_nth:
  assumes "i < 3" and "j < 3"
  shows "saturation_temp rnd val ! (3 * i + j)
    = (if i = j then d_add rnd (d_div rnd (d_sub rnd (Finite 1) val) (Finite 3)) val
       else d_div rnd (d_sub rnd (Finite 1) val) (Finite 3))"
proof -
  from assms have "i = 0 \<or> i = 1 \<or> i = 2" and "j = 0 \<or> j = 1 \<or> j = 2" by auto
  then show ?thesis
    by (auto simp: saturation_temp_def Let_def)
qed

lemma saturation_exact:
  assumes "\<bar>v\<bar> + 1 \<le> DBL_MAX"
  shows "d_val (d_div id (d_sub id (Finite 1) (Finite v)) (Finite 3)) = (1 - v) / 3"
    and "d_val (d_add id (d_div id (d_sub id (Finite 1) (Finite v)) (Finite 3)) (Finite v))
           = (1 - v) / 3 + v"
proof -
  have b1: "\<bar>1 - v\<bar> \<le> DBL_MAX" using assms by linarith
  have sub: "d_sub id (Finite 1) (Finite v) = Finite (1 - v)"
    using b1 by (simp add: d_sub_def d_round_def d_zero_def)
  have b2: "\<bar>(1 - v) / 3\<bar> \<le> DBL_MAX" using b1 by simp
  have dv: "d_div id (Finite (1 - v)) (Finite 3) = Finite ((1 - v) / 3)"
    using b2 by (simp add: d_div_def d_round_def d_zero_def)
  show "d_val (d_div id (d_sub id (Finite 1) (Finite v)) (Finite 3)) = (1 - v) / 3"
    by (simp add: sub dv)
  define t where "t = (1 - v) / 3 + v"
  have "3 * t = 1 + 2 * v" by (simp add: t_def field_simps)
  then have "\<bar>t\<bar> \<le> \<bar>v\<bar> + 1" by linarith
  then have "\<bar>(1 - v) / 3 + v\<bar> \<le> \<bar>v\<bar> + 1" by (simp only: t_def)
  then have b3: "\<bar>(1 - v) / 3 + v\<bar> \<le> DBL_MAX" using assms by linarith
  have "d_add id (Finite ((1 - v) / 3)) (Finite v) = Finite ((1 - v) / 3 + v)"
    using b3 by (simp add: d_round_def d_zero_def)
  then show "d_val (d_add id (d_div id (d_sub id (Finite 1) (Finite v)) (Finite 3)) (Finite v))
           = (1 - v) / 3 + v"
    by (simp add: sub dv)
qed

text \<open>
  Claim C5, as stated, covers every finite saturation value. The value zero is finite,
  but \<open>parse_user_ctm\<close> rejects it by the test \<open>!value\<close>: it returns 0 and writes no
  matrix.
\<close>

theorem parse_user_ctm_zero_not_thirds:
  "strtod_example ''0.0'' = Finite 0
   \<and> parse_user_ctm id strtod_example (Some ''0.0'') identity_temp
        \<noteq> (1, saturation_temp id (Finite 0))"
  by (simp add: parse_user_ctm_def strtod_example_def)

text \<open>
  Claim C5, amended. For every finite saturation value \<open>v\<close> other than zero the
  generator returns 1 and the row-major 3x3 matrix that has \<open>s = (1 - v) / 3\<close> in every
  off-diagonal entry and \<open>s + v\<close> in every diagonal entry, computed in double arithmetic;
  with exact arithmetic (and no overflow) the entries are these real numbers. No value is
  clamped: the statement holds for \<open>v < 0\<close> and for \<open>v > 1\<close> alike. For \<open>v = 1\<close> the
  matrix is exactly the identity matrix (1 is a double, so rounding leaves it as it is).
\<close>

theorem parse_user_ctm_scalar:
  assumes "opt \<noteq> ''default''" and "strtod opt = Finite v" and "v \<noteq> 0"
  shows "parse_user_ctm rnd strtod (Some opt) coeffs = (1, saturation_temp rnd (Finite v))
    \<and> length (saturation_temp rnd (Finite v)) = 9
    \<and> (\<forall>i<3. \<forall>j<3. saturation_temp rnd (Finite v) ! (3 * i + j)
          = (if i = j
             then d_add rnd (d_div rnd (d_sub rnd (Finite 1) (Finite v)) (Finite 3)) (Finite v)
             else d_div rnd (d_sub rnd (Finite 1) (Finite v)) (Finite 3)))
    \<and> (rnd = id \<and> \<bar>v\<bar> + 1 \<le> DBL_MAX \<longrightarrow>
          d_val (d_div rnd (d_sub rnd (Finite 1) (Finite v)) (Finite 3)) = (1 - v) / 3
          \<and> d_val (d_add rnd (d_div rnd (d_sub rnd (Finite 1) (Finite v)) (Finite 3)) (Finite v))
              = (1 - v) / 3 + v)
    \<and> (v = 1 \<and> rnd 1 = 1 \<longrightarrow> saturation_temp rnd (Finite v) = identity_temp)"
proof -
  have "parse_user_ctm rnd strtod (Some opt) coeffs = (1, saturation_temp rnd (Finite v))"
    using assms by (simp add: parse_user_ctm_def)
  moreover have "length (saturation_temp rnd (Finite v)) = 9"
    by (simp add: saturation_temp_def Let_def)
  ultimately show ?thesis
    using saturation_temp_nth [of _ _ rnd "Finite v"] saturation_exact [of v]
      saturation_temp_one [of rnd]
    by auto
qed

theorem parse_user_ctm_scalar_witness:
  "''-1'' \<noteq> ''default'' \<and> strtod_example ''-1'' = Finite (- 1) \<and> (- 1 :: real) \<noteq> 0
   \<and> parse_user_ctm id strtod_example (Some ''-1'') (replicate 9 NaN)
       = (1, [Finite (- 1 / 3), Finite (2 / 3), Finite (2 / 3),
              Finite (2 / 3), Finite (- 1 / 3), Finite (2 / 3),
              Finite (2 / 3), Finite (2 / 3), Finite (- 1 / 3)])
   \<and> parse_user_ctm id strtod_example (Some ''1'') (replicate 9 NaN) = (1, identity_temp)"
proof -
  have h: "''-1'' \<noteq> ''default''" "strtod_example ''-1'' = Finite (- 1)" "(- 1 :: real) \<noteq> 0"
    by (simp_all add: strtod_example_def)
  have k: "''1'' \<noteq> ''default''" "strtod_example ''1'' = Finite 1" "(1 :: real) \<noteq> 0"
    by (simp_all add: strtod_example_def)
  have b: "\<bar>2 / 3 :: real\<bar> \<le> DBL_MAX" "\<bar>1 / 3 :: real\<bar> \<le> DBL_MAX" "\<bar>2 :: real\<bar> \<le> DBL_MAX"
    using one_le_DBL_MAX two63_le_DBL_MAX by simp_all
  have m: "saturation_temp id (Finite (- 1))
      = [Finite (- 1 / 3), Finite (2 / 3), Finite (2 / 3),
         Finite (2 / 3), Finite (- 1 / 3), Finite (2 / 3),
         Finite (2 / 3), Finite (2 / 3), Finite (- 1 / 3)]"
    using b by (simp add: saturation_temp_def d_sub_def d_div_def d_round_def Let_def)
  show ?thesis
    using h k m
      parse_user_ctm_scalar [where opt = "''-1''" and strtod = strtod_example and v = "- 1"
        and rnd = id and coeffs = "replicate 9 NaN"]
      parse_user_ctm_scalar [where opt = "''1''" and strtod = strtod_example and v = 1
        and rnd = id and coeffs = "replicate 9 NaN"]
    by simp
qed

text \<open>
  Claim C6, as stated, has the request with the saturation value zero accepted.
  \<open>parse_user_ctm\<close> rejects it: for the argument \<open>0\<close> it returns 0 and leaves the
  coefficients as they were.
\<close>

theorem parse_user_ctm_rejects_zero:
  "parse_user_ctm id strtod_example (Some ''0'') (replicate 9 NaN) = (0, replicate 9 NaN)"
  by (simp add: parse_user_ctm_def strtod_example_def)

text \<open>
  Claim C6, amended. A saturation argument that \<open>strtod\<close> converts to zero (of either
  sign) is rejected, not accepted: \<open>parse_user_ctm\<close> returns 0 and leaves the
  coefficients as they were, so no matrix is produced. The request stays distinct from
  the identity request \<open>default\<close>, which returns 1 and the identity matrix. The formula
  of the generator, were it evaluated at zero (in exact arithmetic), gives \<open>1 / 3\<close> in
  every entry.
\<close>

theorem parse_user_ctm_zero:
  "parse_user_ctm rnd strtod (Some ''default'') coeffs = (1, identity_temp)
   \<and> (opt \<noteq> ''default'' \<and> d_not (strtod opt)
        \<longrightarrow> parse_user_ctm rnd strtod (Some opt) coeffs = (0, coeffs))
   \<and> saturation_temp id (Finite 0) = replicate 9 (Finite (1 / 3))"
proof -
  have third: "\<bar>1 / 3 :: real\<bar> \<le> DBL_MAX" using one_le_DBL_MAX by simp
  have s: "d_div id (d_sub id (Finite 1) (Finite 0)) (Finite 3) = Finite (1 / 3)"
    using third by (simp add: d_sub_def d_div_def d_round_def)
  have a: "d_round id (1 / 3) = Finite (1 / 3)"
    using third by (simp add: d_round_def)
  have "saturation_temp id (Finite 0) = replicate 9 (Finite (1 / 3))"
    by (simp add: saturation_temp_def s a Let_def numeral_eq_Suc)
  then show ?thesis
    by (simp add: parse_user_ctm_def)
qed

theorem parse_user_ctm_zero_witness:
  "''-0'' \<noteq> ''default'' \<and> d_not (strtod_example ''-0'')
   \<and> parse_user_ctm id strtod_example (Some ''-0'') identity_temp = (0, identity_temp)
   \<and> parse_user_ctm id strtod_example (Some ''default'') (replicate 9 NaN) = (1, identity_temp)"
proof -
  have h: "''-0'' \<noteq> ''default'' \<and> d_not (strtod_example ''-0'')"
    by (simp add: strtod_example_def)
  show ?thesis
    using h parse_user_ctm_zero [of id strtod_example "replicate 9 NaN" "''-0''"]
      parse_user_ctm_zero [of id strtod_example identity_temp "''-0''"]
    by simp
qed

section \<open>Properties of the transmitter\<close>

lemma server_issue [simp]: "server (issue rq dpy) = server dpy"
  by (simp add: issue_def)

lemma requests_issue [simp]: "requests (issue rq dpy) = requests dpy @ [rq]"
  by (simp add: issue_def)

lemma Success_neq [simp]: "Success \<noteq> BadAtom" "Success \<noteq> BadName" "BadAtom \<noteq> BadName"
  "BadAtom \<noteq> Success" "BadName \<noteq> Success"
  by (simp_all add: Success_def BadAtom_def BadName_def)

lemmas fake_defs = fake_service_def fake_display_def

text \<open>
  Claim C7. \<open>set_output_blob\<close>, called for 32-bit elements, returns \<open>Success\<close> exactly
  when the atom of the property name exists, the output has the property, the blob has
  been submitted by \<open>XRRChangeOutputProperty\<close> as an array of type \<open>XA_INTEGER\<close> with
  32-bit elements (\<open>blob_bytes / 4\<close> of them), and \<open>XSync\<close> after it has completed
  with no error reported by the service. The synchronisation is the last call made: the
  function does not return \<open>Success\<close> while the change is only queued, and a call during
  which the service reports an error does not return at all.
\<close>

theorem set_output_blob_success:
  "set_output_blob X dpy output prop_name blob_data blob_bytes FORMAT_32_BIT = Some (Success, dpy')
   \<longleftrightarrow>
   (\<exists>prop_atom prop_info s1 s2.
      srv_intern_atom X (server dpy) prop_name True = Some prop_atom \<and> prop_atom \<noteq> 0
      \<and> srv_query_output_property X (server dpy) output prop_atom = Some (Some prop_info)
      \<and> srv_change_output_property X (server dpy) output prop_atom XA_INTEGER 32 PropModeReplace
            blob_data (blob_bytes div 4) = Some s1
      \<and> srv_sync X s1 False = Some s2
      \<and> dpy' = \<lparr>server = s2,
                 requests = requests dpy
                   @ [InternAtom prop_name True,
                      QueryOutputProperty output prop_atom,
                      ChangeOutputProperty output prop_atom XA_INTEGER 32 PropModeReplace
                        blob_data (blob_bytes div 4),
                      Sync False]\<rparr>)"
  by (auto simp: set_output_blob_def XInternAtom_def XRRQueryOutputProperty_def
        XRRChangeOutputProperty_def XSync_def issue_def drop_bit_eq_div
      split: option.splits if_splits)

theorem set_output_blob_success_witness:
  "set_output_blob fake_service fake_display 67 ''CTM''
       [0, 1, 0, 0, 0, 0, 0, 0, 0, 1, 0, 0, 0, 0, 0, 0, 0, 1 :: 64 word] 72 FORMAT_32_BIT
     = Some (Success,
         \<lparr>server = (server fake_display)
            \<lparr>fs_applied := [(67, 70, [0, 1, 0, 0, 0, 0, 0, 0, 0, 1, 0, 0, 0, 0, 0, 0, 0, 1])]\<rparr>,
          requests =
            [InternAtom ''CTM'' True,
             QueryOutputProperty 67 70,
             ChangeOutputProperty 67 70 XA_INTEGER 32 PropModeReplace
               [0, 1, 0, 0, 0, 0, 0, 0, 0, 1, 0, 0, 0, 0, 0, 0, 0, 1] 18,
             Sync False]\<rparr>)
   \<and> set_output_blob fake_service fake_display 67 ''EDID''
       [0, 1, 0, 0, 0, 0, 0, 0, 0, 1, 0, 0, 0, 0, 0, 0, 0, 1 :: 64 word] 72 FORMAT_32_BIT
     = None"
proof -
  let ?data = "[0, 1, 0, 0, 0, 0, 0, 0, 0, 1, 0, 0, 0, 0, 0, 0, 0, 1 :: 64 word]"
  let ?s1 = "(server fake_display)\<lparr>fs_queued := [(67, 70, ?data)]\<rparr>"
  let ?s2 = "(server fake_display)\<lparr>fs_applied := [(67, 70, ?data)]\<rparr>"
  have "srv_intern_atom fake_service (server fake_display) ''CTM'' True = Some 70 \<and> (70::nat) \<noteq> 0
      \<and> srv_query_output_property fake_service (server fake_display) 67 70
           = Some (Some \<lparr>pending = False, immutable = False, num_values = 0\<rparr>)
      \<and> srv_change_output_property fake_service (server fake_display) 67 70 XA_INTEGER 32 PropModeReplace
            ?data (72 div 4) = Some ?s1
      \<and> srv_sync fake_service ?s1 False = Some ?s2"
    by (simp add: fake_defs)
  then have ok: "set_output_blob fake_service fake_display 67 ''CTM'' ?data 72 FORMAT_32_BIT
     = Some (Success,
         \<lparr>server = ?s2,
          requests = requests fake_display @
            [InternAtom ''CTM'' True,
             QueryOutputProperty 67 70,
             ChangeOutputProperty 67 70 XA_INTEGER 32 PropModeReplace ?data (72 div 4),
             Sync False]\<rparr>)"
    by (subst set_output_blob_success) blast
  have err: "set_output_blob fake_service fake_display 67 ''EDID'' ?data 72 FORMAT_32_BIT = None"
    by (simp add: set_output_blob_def XInternAtom_def XRRQueryOutputProperty_def
        XRRChangeOutputProperty_def XSync_def issue_def fake_defs)
  from ok err show ?thesis by (simp add: fake_display_def)
qed

text \<open>
  Claim C8. When the lookup of the property name reports that the name is not registered
  (\<open>XInternAtom\<close> returns the atom \<open>None\<close>, which is 0), \<open>set_output_blob\<close> returns
  \<open>BadAtom\<close>; the lookup is the only call it makes, so no property change is submitted,
  and the state of the service is as before.
\<close>

theorem set_output_blob_unknown_property:
  assumes "srv_intern_atom X (server dpy) prop_name True = Some 0"
  shows "set_output_blob X dpy output prop_name blob_data blob_bytes format
           = Some (BadAtom, dpy\<lparr>requests := requests dpy @ [InternAtom prop_name True]\<rparr>)"
  using assms by (simp add: set_output_blob_def XInternAtom_def issue_def)

theorem set_output_blob_unknown_property_witness:
  "srv_intern_atom fake_service (server fake_display) ''GAMMA'' True = Some 0
   \<and> set_output_blob fake_service fake_display 67 ''GAMMA''
         [0, 1, 0, 0, 0, 0, 0, 0, 0, 1, 0, 0, 0, 0, 0, 0, 0, 1 :: 64 word] 72 FORMAT_32_BIT
       = Some (BadAtom, fake_display\<lparr>requests := [InternAtom ''GAMMA'' True]\<rparr>)"
proof -
  have h: "srv_intern_atom fake_service (server fake_display) ''GAMMA'' True = Some 0"
    by (simp add: fake_defs)
  show ?thesis
    using h set_output_blob_unknown_property [OF h, of 67 "[0, 1, 0, 0, 0, 0, 0, 0, 0, 1, 0, 0, 0, 0, 0, 0, 0, 1]" 72 FORMAT_32_BIT]
    by (simp add: fake_display_def)
qed

text \<open>
  Claim C10. When the property name resolves to an atom but the output does not have the
  property (\<open>XRRQueryOutputProperty\<close> returns \<open>NULL\<close>), \<open>set_output_blob\<close> returns
  \<open>BadName\<close>; the two lookups are the only calls it makes, so neither a property change
  nor a synchronisation is issued, and the state of the service is as before.
\<close>

theorem set_output_blob_property_not_on_output:
  assumes "srv_intern_atom X (server dpy) prop_name True = Some prop_atom"
    and "prop_atom \<noteq> 0"
    and "srv_query_output_property X (server dpy) output prop_atom = Some None"
  shows "set_output_blob X dpy output prop_name blob_data blob_bytes format
           = Some (BadName,
               dpy\<lparr>requests := requests dpy
                  @ [InternAtom prop_name True, QueryOutputProperty output prop_atom]\<rparr>)"
  using assms
  by (simp add: set_output_blob_def XInternAtom_def XRRQueryOutputProperty_def issue_def)

theorem set_output_blob_property_not_on_output_witness:
  "srv_intern_atom fake_service (server fake_display) ''CTM'' True = Some 70
   \<and> (70 :: Atom) \<noteq> 0
   \<and> srv_query_output_property fake_service (server fake_display) 66 70 = Some None
   \<and> set_output_blob fake_service fake_display 66 ''CTM''
         [0, 1, 0, 0, 0, 0, 0, 0, 0, 1, 0, 0, 0, 0, 0, 0, 0, 1 :: 64 word] 72 FORMAT_32_BIT
       = Some (BadName,
           fake_display\<lparr>requests := [InternAtom ''CTM'' True, QueryOutputProperty 66 70]\<rparr>)"
proof -
  have h1: "srv_intern_atom fake_service (server fake_display) ''CTM'' True = Some 70"
    by (simp add: fake_defs)
  have h2: "(70 :: Atom) \<noteq> 0" by simp
  have h3: "srv_query_output_property fake_service (server fake_display) 66 70 = Some None"
    by (simp add: fake_defs)
  show ?thesis
    using h1 h3 set_output_blob_property_not_on_output [OF h1 h2 h3,
        of "[0, 1, 0, 0, 0, 0, 0, 0, 0, 1, 0, 0, 0, 0, 0, 0, 0, 1]" 72 FORMAT_32_BIT]
    by (simp add: fake_display_def)
qed

section \<open>Properties of the resolver\<close>

lemma find_output_loop_first_match:
  assumes "\<forall>out \<in> set outs. srv_get_output_info X (server dpy) out = Some (Some (info_of out))"
  shows "\<exists>dpy'. find_output_loop X dpy outs output_name
           = Return (case find (\<lambda>out. name (info_of out) = output_name) outs of
                       None \<Rightarrow> 0 | Some out \<Rightarrow> out, dpy')
         \<and> server dpy' = server dpy"
  using assms
proof (induction outs arbitrary: dpy)
  case Nil
  then show ?case by simp
next
  case (Cons ret rest)
  let ?dpy1 = "issue (GetOutputInfo ret) dpy"
  have call: "XRRGetOutputInfo X dpy ret = Some (Some (info_of ret), ?dpy1)"
    using Cons.prems by (simp add: XRRGetOutputInfo_def)
  show ?case
  proof (cases "name (info_of ret) = output_name")
    case True
    then show ?thesis using call by auto
  next
    case False
    have "\<forall>out \<in> set rest. srv_get_output_info X (server ?dpy1) out = Some (Some (info_of out))"
      using Cons.prems by simp
    from Cons.IH [OF this] False call show ?thesis by auto
  qed
qed

text \<open>
  Claim C9. For every requested name and every sequence of outputs, each of which the
  service describes by an \<open>XRROutputInfo\<close>, \<open>find_output_by_name\<close> returns the id of
  the first output of the sequence whose name is equal to the requested name (equality
  of strings, which distinguishes upper and lower case), and returns 0 (\<open>None\<close>: not
  found) when no output of the sequence has that name.
\<close>

theorem find_output_by_name_first_match:
  assumes "\<forall>out \<in> set (outputs res).
             srv_get_output_info X (server dpy) out = Some (Some (info_of out))"
  shows "\<exists>dpy'. find_output_by_name X dpy res output_name
           = Return (case find (\<lambda>out. name (info_of out) = output_name) (outputs res) of
                       None \<Rightarrow> 0 | Some out \<Rightarrow> out, dpy')
         \<and> server dpy' = server dpy"
  unfolding find_output_by_name_def using assms by (rule find_output_loop_first_match)

theorem find_output_by_name_first_match_witness:
  "(\<exists>dpy'. find_output_by_name fake_service fake_display
              \<lparr>outputs = [67, 66, 68]\<rparr> ''HDMI-A-0'' = Return (66, dpy'))
   \<and> (\<exists>dpy'. find_output_by_name fake_service fake_display
              \<lparr>outputs = [67, 66, 68]\<rparr> ''hdmi-a-0'' = Return (0, dpy'))"
proof -
  let ?info = "\<lambda>out. \<lparr>name = (if out = 67 then ''DisplayPort-0'' else ''HDMI-A-0'')\<rparr>"
  have h: "\<forall>out \<in> set (outputs \<lparr>outputs = [67, 66, 68]\<rparr>).
      srv_get_output_info fake_service
        (server fake_display) out
      = Some (Some (?info out))"
    by (simp add: fake_defs)
  show ?thesis
    using find_output_by_name_first_match [OF h, of "''HDMI-A-0''"]
      find_output_by_name_first_match [OF h, of "''hdmi-a-0''"]
    by auto
qed

end
